theory Spec2Isabelle
  imports Main
begin

section \<open>Data model of the EAS context provider\<close>

text \<open>
  The development embeds \<^verbatim>\<open>src/eas/components/EasContextProvider.tsx\<close>.
  JavaScript strings are modelled as HOL strings (ASCII text), \<^verbatim>\<open>undefined\<close> as
  \<open>None\<close>, a thrown value as a \<open>js_error\<close> in the left summand of a sum.
\<close>

datatype js_error = Error string

text \<open>\<^verbatim>\<open>SchemaField\<close>: \<^verbatim>\<open>{ name, type }\<close>. The name comes from destructuring
  \<^verbatim>\<open>const [type, name] = field.trim().split(" ")\<close> and is \<^verbatim>\<open>undefined\<close> when the
  segment has a single token, hence the option.\<close>

record SchemaField =
  name :: "string option"
  type :: string

text \<open>\<^verbatim>\<open>SchemaRecord\<close> of the EAS SDK, as returned by \<^verbatim>\<open>schemaRegistry.getSchema\<close>.
  The fields \<^verbatim>\<open>revocable\<close> and \<^verbatim>\<open>schema\<close> carry the prefix \<open>rec_\<close> because the
  request data and the context state have fields of the same name.\<close>

record SchemaRecord =
  uid :: string
  resolver :: string
  rec_revocable :: bool
  rec_schema :: string

text \<open>The encoder object built by \<^verbatim>\<open>new SchemaEncoder(schema)\<close>: opaque, identified by
  the schema string it is bound to.\<close>

datatype SchemaEncoder = SchemaEncoder string

text \<open>The per-row object literal of \<^verbatim>\<open>createSafeAttestationsTransaction\<close>. The
  \<^verbatim>\<open>refUID\<close> is \<^verbatim>\<open>row[row.length - 2]\<close> in refUID mode, which is \<^verbatim>\<open>undefined\<close> for a
  row of fewer than two cells.\<close>

record AttestationRequestData =
  recipient :: string
  expirationTime :: int
  revocable :: bool
  refUID :: "string option"
  data :: string
  "value" :: int

record MultiAttestRequest =
  req_schema :: string
  req_data :: "AttestationRequestData list"

text \<open>\<^verbatim>\<open>SafeTransactionDataPartial\<close>; \<^verbatim>\<open>operation\<close> is always \<^verbatim>\<open>OperationType.Call\<close>.\<close>

datatype OperationType = Call | DelegateCall

record SafeTransactionDataPartial =
  to :: string
  tx_value :: string
  tx_data :: string
  operation :: OperationType

record SafeSignature =
  signer :: string
  sig_data :: string

text \<open>A Safe transaction: its \<^verbatim>\<open>data\<close> and the signatures by signer address
  (\<^verbatim>\<open>getSignature\<close> is a lookup).\<close>

record SafeTransaction =
  stx_data :: "SafeTransactionDataPartial list"
  signatures :: "(string \<times> SafeSignature) list"

definition getSignature :: "SafeTransaction \<Rightarrow> string \<Rightarrow> SafeSignature option" where
  "getSignature tx addr = map_of (signatures tx) addr"

datatype SafeStatus = Safe_creating | Safe_signing | Safe_created | Safe_error

record SafeTransactionState =
  status :: SafeStatus
  txHash :: "string option"
  signature :: "SafeSignature option"
  st_error :: "js_error option"

datatype TransactionStatus = creating | attesting | wait_uid | success | error

text \<open>The handle returned by \<^verbatim>\<open>eas.multiAttest\<close>, opaque.\<close>

datatype Transaction = Transaction string

text \<open>The provider's React state (\<^verbatim>\<open>EasContext\<close> without the three callbacks):
  every field the file reads or writes. Only \<^verbatim>\<open>schemaUid\<close> is set initially.\<close>

record EasContext =
  schemaUid :: string
  schemaRecord :: "SchemaRecord option"
  schemaRecordIsLoading :: "bool option"
  schemaRecordError :: "js_error option"
  schemaError :: "js_error option"
  schema :: "SchemaField list option"
  schemaEncoder :: "SchemaEncoder option"
  schemaEncoderError :: "js_error option"
  safeTransactionState :: "SafeTransactionState option"
  "transaction" :: "Transaction option"
  transactionError :: "js_error option"
  transactionStatus :: "TransactionStatus option"
  attestationUids :: "string list option"

definition initialState :: "string \<Rightarrow> EasContext" where
  "initialState u =
     \<lparr>schemaUid = u, schemaRecord = None, schemaRecordIsLoading = None,
      schemaRecordError = None, schemaError = None, schema = None, schemaEncoder = None,
      schemaEncoderError = None, safeTransactionState = None, transaction = None,
      transactionError = None, transactionStatus = None, attestationUids = None\<rparr>"


section \<open>Hooks, collaborators and the world\<close>

text \<open>The event handed to \<^verbatim>\<open>plausible.trackEvent("attestation-created", { props })\<close>.\<close>

record EventProps =
  chain :: nat
  wallet :: string
  ev_schema :: string
  attestationCount :: nat

text \<open>The argument of \<^verbatim>\<open>safeApiKit.proposeTransaction\<close>.\<close>

record ProposeTransactionProps =
  safeAddress_of :: string
  safeTransactionData :: "SafeTransactionDataPartial list"
  safeTxHash :: string
  senderAddress :: string
  senderSignature :: string

text \<open>Method calls on the SDK objects (Safe protocol kit, Safe API kit, EAS contract client,
  analytics), in the order the provider makes them.\<close>

datatype call =
    CreateTransaction "SafeTransactionDataPartial list"
  | GetAddress
  | GetTransactionHash SafeTransaction
  | SignTransaction SafeTransaction
  | ProposeTransaction ProposeTransactionProps
  | TrackEvent EventProps
  | MultiAttest "MultiAttestRequest list"
  | Wait Transaction

text \<open>
  What the component closes over. The values of the hooks are options (\<^verbatim>\<open>undefined\<close>
  is \<open>None\<close>); \<open>chainId\<close> is \<^verbatim>\<open>chain?.id\<close>. The imported functions and the methods
  of the SDK objects are not part of the file: they are parameters, each returning either
  the thrown value or its result.
  \<^item> \<open>isSchemaFieldTypeName\<close>, \<open>shouldIncludeRow\<close>, \<open>encodeRow\<close>,
    \<open>processRecipient\<close>, \<open>createMultiAttestRequest\<close>: the helpers under
    \<^verbatim>\<open>../utils\<close>;
  \<^item> \<open>newSchemaEncoder\<close>: \<^verbatim>\<open>new SchemaEncoder(...)\<close>; \<open>parse\<close>: \<^verbatim>\<open>csv-parse/sync\<close>
    with the three relax/trim options;
  \<^item> \<open>encodeFunctionData\<close>: \<^verbatim>\<open>eas.contract.interface.encodeFunctionData("multiAttest", ...)\<close>
    of the client built for an EAS address;
  \<^item> \<open>multiAttest\<close>, \<open>wait\<close>, \<open>createTransaction\<close>, \<open>getTransactionHash\<close>,
    \<open>signTransaction\<close>, \<open>getAddress\<close>, \<open>proposeTransaction\<close>, \<open>trackEvent\<close>:
    the SDK methods.
\<close>

text \<open>\<^verbatim>\<open>useEasConfig(chain?.id)\<close>: the EAS contract and registry addresses of the chain.\<close>

record EasConfig =
  address :: string
  registryAddress :: string

record env =
  schemaUidProp :: string
  safeAddress :: "string option"
  safe :: "unit option"
  safeApiKit :: "unit option"
  chainId :: "nat option"
  easConfig :: "EasConfig option"
  rpcSigner :: "unit option"
  publicClient :: "unit option"
  csv :: string
  includeRefUid :: bool
  isSchemaFieldTypeName :: "string \<Rightarrow> bool"
  newSchemaEncoder :: "string \<Rightarrow> js_error + SchemaEncoder"
  parse :: "string \<Rightarrow> js_error + string list list"
  shouldIncludeRow :: "string list \<Rightarrow> SchemaField list \<Rightarrow> bool"
  encodeRow :: "string list \<Rightarrow> SchemaField list \<Rightarrow> SchemaEncoder \<Rightarrow> js_error + string"
  processRecipient :: "string option \<Rightarrow> js_error + string"
  createMultiAttestRequest ::
    "string \<Rightarrow> string \<Rightarrow> SchemaField list \<Rightarrow> SchemaEncoder \<Rightarrow> bool
      \<Rightarrow> js_error + MultiAttestRequest"
  encodeFunctionData :: "string \<Rightarrow> MultiAttestRequest list \<Rightarrow> js_error + string"
  multiAttest :: "MultiAttestRequest list \<Rightarrow> js_error + Transaction"
  wait :: "Transaction \<Rightarrow> js_error + string list"
  createTransaction :: "SafeTransactionDataPartial list \<Rightarrow> js_error + SafeTransaction"
  getTransactionHash :: "SafeTransaction \<Rightarrow> js_error + string"
  signTransaction :: "SafeTransaction \<Rightarrow> js_error + SafeTransaction"
  getAddress :: "js_error + string"
  proposeTransaction :: "ProposeTransactionProps \<Rightarrow> js_error + unit"
  trackEvent :: "EventProps \<Rightarrow> js_error + unit"

text \<open>The world of a run: the current React state, the state after each \<^verbatim>\<open>setState\<close>
  (oldest first) and the SDK calls made so far (oldest first).\<close>

record world =
  st :: EasContext
  writes :: "EasContext list"
  calls :: "call list"

definition setState :: "(EasContext \<Rightarrow> EasContext) \<Rightarrow> world \<Rightarrow> world" where
  "setState f w = w\<lparr>st := f (st w), writes := writes w @ [f (st w)]\<rparr>"

text \<open>A computation inside a \<^verbatim>\<open>try\<close> block: it ends with a thrown value or a result, and
  with the world as it is at that moment.\<close>

type_synonym 'a io = "world \<Rightarrow> (js_error + 'a) \<times> world"

definition throw :: "js_error \<Rightarrow> 'a io" where
  "throw e = (\<lambda>w. (Inl e, w))"

definition bind_io :: "'a io \<Rightarrow> ('a \<Rightarrow> 'b io) \<Rightarrow> 'b io" where
  "bind_io m f = (\<lambda>w. case m w of (Inl e, w') \<Rightarrow> (Inl e, w') | (Inr a, w') \<Rightarrow> f a w')"

text \<open>A call of a local function that may throw.\<close>

definition lift :: "js_error + 'a \<Rightarrow> 'a io" where
  "lift r = (\<lambda>w. (r, w))"

text \<open>A method call on an SDK object: recorded, then its outcome.\<close>

definition sdk :: "call \<Rightarrow> js_error + 'a \<Rightarrow> 'a io" where
  "sdk c r = (\<lambda>w. (r, w\<lparr>calls := calls w @ [c]\<rparr>))"

definition update :: "(EasContext \<Rightarrow> EasContext) \<Rightarrow> unit io" where
  "update f = (\<lambda>w. (Inr (), setState f w))"

section \<open>Schema resolver\<close>

text \<open>\<^verbatim>\<open>String.prototype.split(sep)\<close> for a one-character separator: never empty,
  \<^verbatim>\<open>"".split(",")\<close> is \<^verbatim>\<open>[""]\<close>.\<close>

fun split :: "char \<Rightarrow> string \<Rightarrow> string list" where
  "split c [] = [[]]"
| "split c (x # xs) =
     (if x = c then [] # split c xs
      else (case split c xs of [] \<Rightarrow> [[x]] | p # ps \<Rightarrow> (x # p) # ps))"

text \<open>\<^verbatim>\<open>String.prototype.trim\<close> on ASCII text: space, tab, line feed, vertical tab, form
  feed and carriage return are removed at both ends.\<close>

definition isWhiteSpace :: "char \<Rightarrow> bool" where
  "isWhiteSpace c = (c \<in> set [CHR '' '', CHR 0x09, CHR 0x0A, CHR 0x0B, CHR 0x0C, CHR 0x0D])"

definition trim :: "string \<Rightarrow> string" where
  "trim s = rev (dropWhile isWhiteSpace (rev (dropWhile isWhiteSpace s)))"

text \<open>\<^verbatim>\<open>const [type, name] = field.trim().split(" ")\<close>. The first component always exists,
  since \<open>split\<close> never returns the empty list.\<close>

definition fieldOf :: "string \<Rightarrow> SchemaField" where
  "fieldOf field =
     (case split CHR '' '' (trim field) of
        [] \<Rightarrow> \<lparr>name = None, type = []\<rparr>
      | [t] \<Rightarrow> \<lparr>name = None, type = t\<rparr>
      | t # n # _ \<Rightarrow> \<lparr>name = Some n, type = t\<rparr>)"

text \<open>The \<^verbatim>\<open>forEach\<close> of \<^verbatim>\<open>createSchemaFromRecord\<close>: a recognised type pushes the field,
  any other records \<^verbatim>\<open>schemaError\<close> and goes on.\<close>

fun forEachField :: "env \<Rightarrow> string list \<Rightarrow> SchemaField list \<Rightarrow> world \<Rightarrow> SchemaField list \<times> world" where
  "forEachField e [] acc w = (acc, w)"
| "forEachField e (field # rest) acc w =
     (if isSchemaFieldTypeName e (type (fieldOf field))
      then forEachField e rest (acc @ [fieldOf field]) w
      else forEachField e rest acc
             (setState (\<lambda>prev. prev\<lparr>schemaError :=
                Some (Error (''Invalid type name: '' @ type (fieldOf field)))\<rparr>) w))"

definition createSchemaFromRecord :: "env \<Rightarrow> world \<Rightarrow> world" where
  "createSchemaFromRecord e w =
     (case schemaRecord (st w) of
        None \<Rightarrow> w
      | Some r \<Rightarrow>
          (case forEachField e (split CHR '','' (rec_schema r)) [] w of
             (parsed, w1) \<Rightarrow>
               (let withRef = (if includeRefUid e
                               then parsed @ [\<lparr>name = Some ''refUID'', type = ''bytes32''\<rparr>]
                               else parsed);
                    resolved = withRef @ [\<lparr>name = Some ''recipient'', type = ''address''\<rparr>]
                in setState (\<lambda>prev. prev\<lparr>schema := Some resolved\<rparr>) w1)))"

text \<open>\<^verbatim>\<open>initSchemaEncoder\<close>: nothing without a record or with the empty schema string
  (falsy); a failed construction records \<^verbatim>\<open>schemaEncoderError\<close> and leaves
  \<^verbatim>\<open>schemaEncoder\<close> as it was.\<close>

definition initSchemaEncoder :: "env \<Rightarrow> world \<Rightarrow> world" where
  "initSchemaEncoder e w =
     (case schemaRecord (st w) of
        None \<Rightarrow> w
      | Some r \<Rightarrow>
          if rec_schema r = [] then w
          else (case newSchemaEncoder e (rec_schema r) of
                  Inr enc \<Rightarrow> setState (\<lambda>prev. prev\<lparr>schemaEncoder := Some enc\<rparr>) w
                | Inl err \<Rightarrow> setState (\<lambda>prev. prev\<lparr>schemaEncoderError := Some err\<rparr>) w))"

section \<open>Reset\<close>

definition resetTransactions :: "world \<Rightarrow> world" where
  "resetTransactions w =
     setState (\<lambda>prev. prev\<lparr>safeTransactionState := None, transaction := None,
                            transactionError := None, transactionStatus := None,
                            attestationUids := None\<rparr>) w"


section \<open>Multisig-proposal submission\<close>

text \<open>Array indexing \<^verbatim>\<open>row[i]\<close>: \<^verbatim>\<open>undefined\<close> outside \<^verbatim>\<open>0 .. row.length - 1\<close>.\<close>

definition cellAt :: "string list \<Rightarrow> int \<Rightarrow> string option" where
  "cellAt row i = (if 0 \<le> i \<and> i < int (length row) then Some (row ! nat i) else None)"

definition zeroHash :: string where
  "zeroHash = ''0x0000000000000000000000000000000000000000000000000000000000000000''"

text \<open>The \<^verbatim>\<open>for (const row of parsedCsv)\<close> loop: a row that fails \<^verbatim>\<open>shouldIncludeRow\<close> is
  skipped; for any other row \<^verbatim>\<open>encodeRow\<close> runs first, then \<^verbatim>\<open>processRecipient\<close> on
  \<^verbatim>\<open>row[row.length - 1]\<close>, and the object is pushed. A throw of either leaves the loop.\<close>

fun requestDataLoop ::
  "env \<Rightarrow> SchemaField list \<Rightarrow> SchemaEncoder \<Rightarrow> bool \<Rightarrow> string list list
    \<Rightarrow> AttestationRequestData list \<Rightarrow> js_error + AttestationRequestData list" where
  "requestDataLoop e sch enc revoc [] requestData = Inr requestData"
| "requestDataLoop e sch enc revoc (row # rest) requestData =
     (if \<not> shouldIncludeRow e row sch then requestDataLoop e sch enc revoc rest requestData
      else (case encodeRow e row sch enc of
              Inl err \<Rightarrow> Inl err
            | Inr encodedData \<Rightarrow>
                (case processRecipient e (cellAt row (int (length row) - 1)) of
                   Inl err \<Rightarrow> Inl err
                 | Inr rcp \<Rightarrow>
                     requestDataLoop e sch enc revoc rest
                       (requestData @
                          [\<lparr>recipient = rcp, expirationTime = 0, revocable = revoc,
                            refUID = (if includeRefUid e then cellAt row (int (length row) - 2)
                                      else Some zeroHash),
                            data = encodedData, value = 0\<rparr>]))))"

text \<open>Lines 170 to 192 as the operation runs them: \<^verbatim>\<open>parseCsv(csv)\<close>, then the loop from
  the empty array, on the field list, the encoder and the record's \<^verbatim>\<open>revocable\<close> flag
  of the captured state (all three present once the guard has passed).\<close>

definition buildRequestData :: "env \<Rightarrow> EasContext \<Rightarrow> js_error + AttestationRequestData list" where
  "buildRequestData e state =
     (case parse e (csv e) of
        Inl err \<Rightarrow> Inl err
      | Inr parsedCsv \<Rightarrow>
          requestDataLoop e (the (schema state)) (the (schemaEncoder state))
            (rec_revocable (the (schemaRecord state))) parsedCsv [])"

text \<open>The guard of \<^verbatim>\<open>createSafeAttestationsTransaction\<close>, disjunct by disjunct. The empty
  string, the number 0, \<^verbatim>\<open>false\<close> and \<^verbatim>\<open>undefined\<close> are falsy.\<close>

definition safeGuardFails :: "env \<Rightarrow> EasContext \<Rightarrow> bool" where
  "safeGuardFails e state \<longleftrightarrow>
     rpcSigner e = None \<or>
     (safeAddress e = None \<or> safeAddress e = Some []) \<or>
     safe e = None \<or>
     safeApiKit e = None \<or>
     schemaEncoder state = None \<or>
     schema state = None \<or>
     easConfig e = None \<or>
     publicClient e = None \<or>
     (chainId e = None \<or> chainId e = Some 0) \<or>
     (case schemaRecord state of None \<Rightarrow> True | Some r \<Rightarrow> \<not> rec_revocable r)"

text \<open>
  The \<^verbatim>\<open>try\<close> block, statement by statement. \<open>state\<close> is the state the callback closes
  over; the \<^verbatim>\<open>setState\<close> calls act on the current state of the world. A run is taken
  on its own: no other handler runs between its \<^verbatim>\<open>await\<close>s. Building the EAS client
  (\<^verbatim>\<open>new EAS\<close>, \<^verbatim>\<open>connect\<close>) is taken not to throw and leaves no trace.
\<close>

definition safeTryBlock :: "env \<Rightarrow> EasContext \<Rightarrow> unit io" where
  "safeTryBlock e state =
     (if safeGuardFails e state
      then throw (Error ''Missing signer, safe, safeApiKit or ethersAdapter'')
      else
        bind_io (update (\<lambda>prev. prev\<lparr>safeTransactionState :=
                   Some \<lparr>status = Safe_creating, txHash = None, signature = None,
                         st_error = None\<rparr>\<rparr>)) (\<lambda>_.
        bind_io (lift (buildRequestData e state)) (\<lambda>requestData.
        bind_io (lift (encodeFunctionData e (address (the (easConfig e)))
                         [\<lparr>req_schema = schemaUidProp e, req_data = requestData\<rparr>])) (\<lambda>encoded.
        bind_io (sdk (CreateTransaction
                        [\<lparr>to = address (the (easConfig e)), tx_value = ''0'',
                          tx_data = encoded, operation = Call\<rparr>])
                     (createTransaction e
                        [\<lparr>to = address (the (easConfig e)), tx_value = ''0'',
                          tx_data = encoded, operation = Call\<rparr>])) (\<lambda>tx.
        bind_io (sdk GetAddress (getAddress e)) (\<lambda>signerAddress.
        bind_io (sdk (GetTransactionHash tx) (getTransactionHash e tx)) (\<lambda>hash.
        bind_io (update (\<lambda>prev. prev\<lparr>safeTransactionState :=
                   Some \<lparr>status = Safe_signing, txHash = Some hash, signature = None,
                         st_error = None\<rparr>\<rparr>)) (\<lambda>_.
        bind_io (sdk (SignTransaction tx) (signTransaction e tx)) (\<lambda>signedTransaction.
        (case getSignature signedTransaction signerAddress of
           None \<Rightarrow> throw (Error ''Signing transaction failed'')
         | Some sg \<Rightarrow>
        bind_io (sdk (ProposeTransaction
                        \<lparr>safeAddress_of = the (safeAddress e), safeTransactionData = stx_data tx,
                          safeTxHash = hash, senderAddress = signerAddress,
                          senderSignature = sig_data sg\<rparr>)
                     (proposeTransaction e
                        \<lparr>safeAddress_of = the (safeAddress e), safeTransactionData = stx_data tx,
                          safeTxHash = hash, senderAddress = signerAddress,
                          senderSignature = sig_data sg\<rparr>)) (\<lambda>_.
        bind_io (sdk (TrackEvent
                        \<lparr>chain = the (chainId e), wallet = ''safe'', ev_schema = schemaUidProp e,
                          attestationCount = length requestData\<rparr>)
                     (trackEvent e
                        \<lparr>chain = the (chainId e), wallet = ''safe'', ev_schema = schemaUidProp e,
                          attestationCount = length requestData\<rparr>)) (\<lambda>_.
        update (\<lambda>prev. prev\<lparr>safeTransactionState :=
                   Some \<lparr>status = Safe_created, txHash = Some hash, signature = Some sg,
                         st_error = None\<rparr>\<rparr>)))))))))))))"

text \<open>The whole operation: the \<^verbatim>\<open>try\<close> block on the state captured at the call, and the
  \<^verbatim>\<open>catch\<close> that records the thrown value. The promise itself never rejects.\<close>

definition createSafeAttestationsTransaction :: "env \<Rightarrow> world \<Rightarrow> world" where
  "createSafeAttestationsTransaction e w =
     (case safeTryBlock e (st w) w of
        (Inr _, w') \<Rightarrow> w'
      | (Inl err, w') \<Rightarrow>
          setState (\<lambda>prev. prev\<lparr>safeTransactionState :=
                      Some \<lparr>status = Safe_error, txHash = None, signature = None,
                            st_error = Some err\<rparr>\<rparr>) w')"

section \<open>Direct submission\<close>

definition directGuardFails :: "env \<Rightarrow> EasContext \<Rightarrow> bool" where
  "directGuardFails e state \<longleftrightarrow>
     schemaEncoder state = None \<or>
     schema state = None \<or>
     easConfig e = None \<or>
     rpcSigner e = None \<or>
     publicClient e = None \<or>
     (chainId e = None \<or> chainId e = Some 0) \<or>
     (case schemaRecord state of None \<Rightarrow> True | Some r \<Rightarrow> \<not> rec_revocable r)"

definition directTryBlock :: "env \<Rightarrow> EasContext \<Rightarrow> unit io" where
  "directTryBlock e state =
     (if directGuardFails e state
      then throw (Error ''Missing schemaEncoder, schema, easConfig, rpcSigner or publicClient'')
      else
        bind_io (update (\<lambda>prev. prev\<lparr>transactionStatus := Some creating\<rparr>)) (\<lambda>_.
        bind_io (lift (createMultiAttestRequest e (csv e) (schemaUid state) (the (schema state))
                         (the (schemaEncoder state))
                         (rec_revocable (the (schemaRecord state))))) (\<lambda>request.
        bind_io (update (\<lambda>prev. prev\<lparr>transactionStatus := Some attesting\<rparr>)) (\<lambda>_.
        bind_io (sdk (MultiAttest [request]) (multiAttest e [request])) (\<lambda>tx.
        bind_io (sdk (TrackEvent
                        \<lparr>chain = the (chainId e), wallet = ''safe'', ev_schema = schemaUidProp e,
                          attestationCount = length (req_data request)\<rparr>)
                     (trackEvent e
                        \<lparr>chain = the (chainId e), wallet = ''safe'', ev_schema = schemaUidProp e,
                          attestationCount = length (req_data request)\<rparr>)) (\<lambda>_.
        bind_io (update (\<lambda>prev. prev\<lparr>transactionStatus := Some wait_uid,
                                        transaction := Some tx\<rparr>)) (\<lambda>_.
        bind_io (sdk (Wait tx) (wait e tx)) (\<lambda>uids.
        update (\<lambda>prev. prev\<lparr>transactionStatus := Some success,
                               attestationUids := Some uids\<rparr>)))))))))"

definition createAttestations :: "env \<Rightarrow> world \<Rightarrow> world" where
  "createAttestations e w =
     (case directTryBlock e (st w) w of
        (Inr _, w') \<Rightarrow> w'
      | (Inl err, w') \<Rightarrow>
          setState (\<lambda>prev. prev\<lparr>transactionStatus := Some error,
                                 transactionError := Some err\<rparr>) w')"


section \<open>Observations on a run\<close>

text \<open>The payloads of a run: what was handed to the Safe transaction service and to the
  EAS contract.\<close>

fun isSubmission :: "call \<Rightarrow> bool" where
  "isSubmission (ProposeTransaction p) = True"
| "isSubmission (MultiAttest reqs) = True"
| "isSubmission c = False"

definition submitted :: "world \<Rightarrow> call list" where
  "submitted w = filter isSubmission (calls w)"

text \<open>The values \<^verbatim>\<open>transactionStatus\<close> takes during one direct submission, in order: one
  per \<^verbatim>\<open>setState\<close> of the run.\<close>

definition statusTrace :: "env \<Rightarrow> world \<Rightarrow> TransactionStatus option list" where
  "statusTrace e w =
     map transactionStatus (drop (length (writes w)) (writes (createAttestations e w)))"

section \<open>A concrete configuration\<close>

text \<open>
  A connected wallet on chain 11155111 with a Safe, and stand-ins for the collaborators:
  five recognised type names, an encoder that accepts every schema string, a parser that
  cuts lines at line feeds and cells at commas, a row check that compares the cell count
  with the field count, and a recipient resolution that accepts every cell as it is.
\<close>

definition sampleEnv :: env where
  "sampleEnv =
     \<lparr>schemaUidProp = ''0xschema'',
      safeAddress = Some ''0xsafe'',
      safe = Some (),
      safeApiKit = Some (),
      chainId = Some 11155111,
      easConfig = Some \<lparr>address = ''0xeas'', registryAddress = ''0xregistry''\<rparr>,
      rpcSigner = Some (),
      publicClient = Some (),
      csv = ''42,hello,alice.eth\<newline>7,short'',
      includeRefUid = False,
      isSchemaFieldTypeName =
        (\<lambda>t. t \<in> set [''address'', ''string'', ''bool'', ''bytes32'', ''uint256'']),
      newSchemaEncoder = (\<lambda>s. Inr (SchemaEncoder s)),
      parse = (\<lambda>s. Inr (map (split CHR '','') (split CHR 0x0A s))),
      shouldIncludeRow = (\<lambda>row sch. length row = length sch),
      encodeRow = (\<lambda>row sch enc. Inr (concat (butlast row))),
      processRecipient =
        (\<lambda>c. case c of None \<Rightarrow> Inl (Error ''no recipient'') | Some a \<Rightarrow> Inr a),
      createMultiAttestRequest =
        (\<lambda>text u sch enc revoc. Inr \<lparr>req_schema = u, req_data = []\<rparr>),
      encodeFunctionData = (\<lambda>a reqs. Inr ''0xcalldata''),
      multiAttest = (\<lambda>reqs. Inr (Transaction ''0xtx'')),
      wait = (\<lambda>t. Inr [''0xuid'']),
      createTransaction = (\<lambda>txs. Inr \<lparr>stx_data = txs, signatures = []\<rparr>),
      getTransactionHash = (\<lambda>t. Inr ''0xhash''),
      signTransaction =
        (\<lambda>t. Inr (t\<lparr>signatures :=
                 [(''0xsigner'', \<lparr>signer = ''0xsigner'', sig_data = ''0xsig''\<rparr>)]\<rparr>)),
      getAddress = Inr ''0xsigner'',
      proposeTransaction = (\<lambda>p. Inr ()),
      trackEvent = (\<lambda>p. Inr ())\<rparr>"

text \<open>The state once the registry has answered with a revocable schema of two fields.\<close>

definition loadedWorld :: world where
  "loadedWorld =
     \<lparr>st = (initialState ''0xschema'')
             \<lparr>schemaRecord := Some \<lparr>uid = ''0xschema'', resolver = ''0x0'',
                                     rec_revocable = True,
                                     rec_schema = ''uint256 value, string note''\<rparr>\<rparr>,
      writes = [], calls = []\<rparr>"

text \<open>The same after both effects have run: field list resolved, encoder built.\<close>

definition readyWorld :: world where
  "readyWorld = initSchemaEncoder sampleEnv (createSchemaFromRecord sampleEnv loadedWorld)"

text \<open>A schema whose second field has a type name outside the recognised five.\<close>

definition oddWorld :: world where
  "oddWorld =
     \<lparr>st = (initialState ''0xschema'')
             \<lparr>schemaRecord := Some \<lparr>uid = ''0xschema'', resolver = ''0x0'',
                                     rec_revocable = True,
                                     rec_schema = ''uint256 value,string[] tags''\<rparr>\<rparr>,
      writes = [], calls = []\<rparr>"


text \<open>The ready state with the record's \<^verbatim>\<open>revocable\<close> flag set to \<^verbatim>\<open>false\<close>.\<close>

definition irrevocableWorld :: world where
  "irrevocableWorld =
     readyWorld\<lparr>st := (st readyWorld)
        \<lparr>schemaRecord := Some \<lparr>uid = ''0xschema'', resolver = ''0x0'',
                                rec_revocable = False,
                                rec_schema = ''uint256 value, string note''\<rparr>\<rparr>\<rparr>"

text \<open>Reference UID mode: one more column before the recipient.\<close>

definition refEnv :: env where
  "refEnv = sampleEnv\<lparr>includeRefUid := True, csv := ''42,hello,0xref,alice.eth''\<rparr>"

definition refWorld :: world where
  "refWorld = initSchemaEncoder refEnv (createSchemaFromRecord refEnv loadedWorld)"

text \<open>An analytics client whose \<^verbatim>\<open>trackEvent\<close> throws.\<close>

definition blockedEnv :: env where
  "blockedEnv = sampleEnv\<lparr>trackEvent := (\<lambda>p. Inl (Error ''blocked''))\<rparr>"

text \<open>No signer connected.\<close>

definition signerlessEnv :: env where
  "signerlessEnv = sampleEnv\<lparr>rpcSigner := None\<rparr>"

text \<open>The odd schema after both effects, and a sheet of one row for its two resolved
  fields.\<close>

definition oddReadyWorld :: world where
  "oddReadyWorld = initSchemaEncoder sampleEnv (createSchemaFromRecord sampleEnv oddWorld)"

definition oddEnv :: env where
  "oddEnv = sampleEnv\<lparr>csv := ''42,alice.eth''\<rparr>"

text \<open>Two rows of three cells; the recipient of the second one does not resolve.\<close>

definition unresolvedEnv :: env where
  "unresolvedEnv =
     sampleEnv\<lparr>csv := ''1,a,alice.eth\<newline>2,b,nobody'',
                processRecipient :=
                  (\<lambda>c. case c of
                         None \<Rightarrow> Inl (Error ''no recipient'')
                       | Some a \<Rightarrow> if a = ''nobody'' then Inl (Error ''unresolved'')
                                   else Inr a)\<rparr>"

text \<open>A contract client whose \<^verbatim>\<open>multiAttest\<close> is rejected.\<close>

definition revertingEnv :: env where
  "revertingEnv = sampleEnv\<lparr>multiAttest := (\<lambda>reqs. Inl (Error ''reverted''))\<rparr>"

section \<open>Basic facts\<close>

lemmas io_defs = bind_io_def throw_def lift_def sdk_def update_def

lemmas sample_defs =
  sampleEnv_def loadedWorld_def readyWorld_def oddWorld_def irrevocableWorld_def refEnv_def
  refWorld_def blockedEnv_def signerlessEnv_def oddReadyWorld_def oddEnv_def
  unresolvedEnv_def revertingEnv_def initialState_def

lemmas run_defs =
  createSchemaFromRecord_def initSchemaEncoder_def fieldOf_def trim_def isWhiteSpace_def
  createSafeAttestationsTransaction_def safeTryBlock_def safeGuardFails_def
  createAttestations_def directTryBlock_def directGuardFails_def buildRequestData_def
  cellAt_def getSignature_def zeroHash_def Let_def

lemma st_setState [simp]: "st (setState f w) = f (st w)"
  by (simp add: setState_def)

lemma writes_setState [simp]: "writes (setState f w) = writes w @ [f (st w)]"
  by (simp add: setState_def)

lemma calls_setState [simp]: "calls (setState f w) = calls w"
  by (simp add: setState_def)

lemma split_not_Nil: "split c s \<noteq> []"
  by (induction s) (auto split: list.splits)

text \<open>The \<^verbatim>\<open>forEach\<close> keeps the recognised fields, in order, behind what was pushed
  before.\<close>

lemma forEachField_fst:
  "fst (forEachField e fs acc w) =
     acc @ filter (\<lambda>f. isSchemaFieldTypeName e (type f)) (map fieldOf fs)"
  by (induction fs arbitrary: acc w) auto

text \<open>What a finished loop has pushed: one object per included row, in row order, each
  with the fields of the object literal.\<close>

lemma requestDataLoop_entries:
  assumes "requestDataLoop e sch enc rv rows acc = Inr ds"
  shows "\<exists>ds'. ds = acc @ ds' \<and>
     list_all2 (\<lambda>row d. encodeRow e row sch enc = Inr (data d) \<and>
                  processRecipient e (cellAt row (int (length row) - 1)) = Inr (recipient d) \<and>
                  expirationTime d = 0 \<and> revocable d = rv \<and>
                  refUID d = (if includeRefUid e then cellAt row (int (length row) - 2)
                              else Some zeroHash) \<and>
                  value d = 0)
       (filter (\<lambda>row. shouldIncludeRow e row sch) rows) ds'"
  using assms
proof (induction rows arbitrary: acc)
  case Nil
  then show ?case by simp
next
  case (Cons row rest)
  show ?case
  proof (cases "shouldIncludeRow e row sch")
    case False
    with Cons show ?thesis by simp
  next
    case True
    with Cons.prems obtain encoded rcp where
      enc: "encodeRow e row sch enc = Inr encoded" and
      rcp: "processRecipient e (cellAt row (int (length row) - 1)) = Inr rcp" and
      rest: "requestDataLoop e sch enc rv rest
               (acc @ [\<lparr>recipient = rcp, expirationTime = 0, revocable = rv,
                        refUID = (if includeRefUid e then cellAt row (int (length row) - 2)
                                  else Some zeroHash),
                        data = encoded, value = 0\<rparr>]) = Inr ds"
      by (auto split: sum.splits)
    from Cons.IH[OF rest] obtain others where
      "ds = (acc @ [\<lparr>recipient = rcp, expirationTime = 0, revocable = rv,
                     refUID = (if includeRefUid e then cellAt row (int (length row) - 2)
                               else Some zeroHash),
                     data = encoded, value = 0\<rparr>]) @ others" and
      "list_all2 (\<lambda>row d. encodeRow e row sch enc = Inr (data d) \<and>
                  processRecipient e (cellAt row (int (length row) - 1)) = Inr (recipient d) \<and>
                  expirationTime d = 0 \<and> revocable d = rv \<and>
                  refUID d = (if includeRefUid e then cellAt row (int (length row) - 2)
                              else Some zeroHash) \<and>
                  value d = 0)
         (filter (\<lambda>row. shouldIncludeRow e row sch) rest) others"
      by blast
    with True enc rcp show ?thesis by simp
  qed
qed

text \<open>The same for the batch of the operation, which starts the loop from the empty
  array.\<close>

lemma buildRequestData_entries:
  assumes "parse e (csv e) = Inr rows" and "schema state = Some sch"
    and "schemaEncoder state = Some enc" and "schemaRecord state = Some r"
    and "buildRequestData e state = Inr ds"
  shows "list_all2 (\<lambda>row d. encodeRow e row sch enc = Inr (data d) \<and>
                  processRecipient e (cellAt row (int (length row) - 1)) = Inr (recipient d) \<and>
                  expirationTime d = 0 \<and> revocable d = rec_revocable r \<and>
                  refUID d = (if includeRefUid e then cellAt row (int (length row) - 2)
                              else Some zeroHash) \<and>
                  value d = 0)
       (filter (\<lambda>row. shouldIncludeRow e row sch) rows) ds"
proof -
  from assms have "requestDataLoop e sch enc (rec_revocable r) rows [] = Inr ds"
    by (simp add: buildRequestData_def)
  from requestDataLoop_entries[OF this] show ?thesis by simp
qed

text \<open>When every included row encodes and resolves, the loop does return.\<close>

lemma requestDataLoop_returns:
  assumes "list_all2 (\<lambda>row d. encodeRow e row sch enc = Inr (data d) \<and>
                  processRecipient e (cellAt row (int (length row) - 1)) = Inr (recipient d) \<and>
                  expirationTime d = 0 \<and> revocable d = rv \<and>
                  refUID d = (if includeRefUid e then cellAt row (int (length row) - 2)
                              else Some zeroHash) \<and>
                  value d = 0)
       (filter (\<lambda>row. shouldIncludeRow e row sch) rows) (ds :: AttestationRequestData list)"
  shows "requestDataLoop e sch enc rv rows acc = Inr (acc @ ds)"
  using assms
proof (induction rows arbitrary: acc ds)
  case Nil
  then show ?case by simp
next
  case (Cons row rest)
  show ?case
  proof (cases "shouldIncludeRow e row sch")
    case False
    with Cons show ?thesis by simp
  next
    case True
    with Cons.prems obtain d others where ds: "ds = d # others"
      and d: "encodeRow e row sch enc = Inr (data d)"
        "processRecipient e (cellAt row (int (length row) - 1)) = Inr (recipient d)"
        "expirationTime d = 0" "revocable d = rv"
        "refUID d = (if includeRefUid e then cellAt row (int (length row) - 2)
                     else Some zeroHash)"
        "value d = 0"
      and others: "list_all2 (\<lambda>row d. encodeRow e row sch enc = Inr (data d) \<and>
                  processRecipient e (cellAt row (int (length row) - 1)) = Inr (recipient d) \<and>
                  expirationTime d = 0 \<and> revocable d = rv \<and>
                  refUID d = (if includeRefUid e then cellAt row (int (length row) - 2)
                              else Some zeroHash) \<and>
                  value d = 0)
         (filter (\<lambda>row. shouldIncludeRow e row sch) rest) others"
      by (auto simp: list_all2_Cons1)
    have "requestDataLoop e sch enc rv (row # rest) acc =
          requestDataLoop e sch enc rv rest
            (acc @ [\<lparr>recipient = recipient d, expirationTime = expirationTime d,
                     revocable = revocable d, refUID = refUID d, data = data d,
                     value = value d\<rparr>])"
      using True d by simp
    also have "\<dots> = requestDataLoop e sch enc rv rest (acc @ [d])"
      by (cases d) simp
    also have "\<dots> = Inr ((acc @ [d]) @ others)"
      by (rule Cons.IH[OF others])
    finally show ?thesis using ds by simp
  qed
qed

text \<open>A passing row whose encoding or recipient resolution throws ends the loop with a
  thrown value: no batch is returned.\<close>

lemma requestDataLoop_fails:
  assumes "row \<in> set rows" and "shouldIncludeRow e row sch"
    and "(\<exists>err. encodeRow e row sch enc = Inl err) \<or>
         (\<exists>err. processRecipient e (cellAt row (int (length row) - 1)) = Inl err)"
  shows "\<exists>err. requestDataLoop e sch enc rv rows acc = Inl err"
proof (cases "requestDataLoop e sch enc rv rows acc")
  case (Inl err)
  then show ?thesis by blast
next
  case (Inr ds)
  from requestDataLoop_entries[OF Inr] obtain ds' where
    "ds = acc @ ds'" and
    entries: "list_all2 (\<lambda>row d. encodeRow e row sch enc = Inr (data d) \<and>
                  processRecipient e (cellAt row (int (length row) - 1)) = Inr (recipient d) \<and>
                  expirationTime d = 0 \<and> revocable d = rv \<and>
                  refUID d = (if includeRefUid e then cellAt row (int (length row) - 2)
                              else Some zeroHash) \<and>
                  value d = 0)
       (filter (\<lambda>row. shouldIncludeRow e row sch) rows) ds'"
    by blast
  from assms(1,2) have "row \<in> set (filter (\<lambda>row. shouldIncludeRow e row sch) rows)"
    by simp
  then obtain i where i: "i < length (filter (\<lambda>row. shouldIncludeRow e row sch) rows)"
    "filter (\<lambda>row. shouldIncludeRow e row sch) rows ! i = row"
    unfolding in_set_conv_nth by blast
  from list_all2_nthD[OF entries i(1)] i(2)
  have "encodeRow e row sch enc = Inr (data (ds' ! i))"
    "processRecipient e (cellAt row (int (length row) - 1)) = Inr (recipient (ds' ! i))"
    by simp_all
  with assms(3) show ?thesis by auto
qed

text \<open>When both succeed on every passing row, the loop returns a batch.\<close>

lemma requestDataLoop_succeeds:
  assumes "\<forall>row \<in> set rows. shouldIncludeRow e row sch \<longrightarrow>
             (\<exists>b. encodeRow e row sch enc = Inr b) \<and>
             (\<exists>a. processRecipient e (cellAt row (int (length row) - 1)) = Inr a)"
  shows "\<exists>ds. requestDataLoop e sch enc rv rows acc = Inr (acc @ ds)"
  using assms
proof (induction rows arbitrary: acc)
  case Nil
  then show ?case by simp
next
  case (Cons row rest)
  show ?case
  proof (cases "shouldIncludeRow e row sch")
    case False
    with Cons show ?thesis by simp
  next
    case True
    with Cons.prems obtain b a where ba: "encodeRow e row sch enc = Inr b"
      "processRecipient e (cellAt row (int (length row) - 1)) = Inr a"
      by auto
    from Cons.prems have "\<forall>row \<in> set rest. shouldIncludeRow e row sch \<longrightarrow>
             (\<exists>b. encodeRow e row sch enc = Inr b) \<and>
             (\<exists>a. processRecipient e (cellAt row (int (length row) - 1)) = Inr a)"
      by simp
    from Cons.IH[OF this, of "acc @ [\<lparr>recipient = a, expirationTime = 0, revocable = rv,
                        refUID = (if includeRefUid e then cellAt row (int (length row) - 2)
                                  else Some zeroHash),
                        data = b, value = 0\<rparr>]"]
    obtain ds where "requestDataLoop e sch enc rv rest
         (acc @ [\<lparr>recipient = a, expirationTime = 0, revocable = rv,
                        refUID = (if includeRefUid e then cellAt row (int (length row) - 2)
                                  else Some zeroHash),
                        data = b, value = 0\<rparr>]) =
       Inr ((acc @ [\<lparr>recipient = a, expirationTime = 0, revocable = rv,
                        refUID = (if includeRefUid e then cellAt row (int (length row) - 2)
                                  else Some zeroHash),
                        data = b, value = 0\<rparr>]) @ ds)"
      by blast
    with True ba show ?thesis by simp
  qed
qed

text \<open>The loop and the batch never look at the analytics client.\<close>

lemma requestDataLoop_trackEvent [simp]:
  "requestDataLoop (e\<lparr>trackEvent := t\<rparr>) sch enc rv rows acc =
   requestDataLoop e sch enc rv rows acc"
  by (induction rows arbitrary: acc) (simp_all split: sum.split)

lemma buildRequestData_trackEvent [simp]:
  "buildRequestData (e\<lparr>trackEvent := t\<rparr>) state = buildRequestData e state"
  by (simp add: buildRequestData_def split: sum.split)

text \<open>A failed guard: the \<^verbatim>\<open>throw\<close> goes straight to the \<^verbatim>\<open>catch\<close>.\<close>

lemma safe_guard_catch:
  "safeGuardFails e (st w) \<Longrightarrow>
   createSafeAttestationsTransaction e w =
     setState (\<lambda>prev. prev\<lparr>safeTransactionState :=
        Some \<lparr>status = Safe_error, txHash = None, signature = None,
              st_error = Some (Error ''Missing signer, safe, safeApiKit or ethersAdapter'')\<rparr>\<rparr>) w"
  by (simp add: createSafeAttestationsTransaction_def safeTryBlock_def throw_def)

lemma direct_guard_catch:
  "directGuardFails e (st w) \<Longrightarrow>
   createAttestations e w =
     setState (\<lambda>prev. prev\<lparr>transactionStatus := Some error, transactionError :=
        Some (Error ''Missing schemaEncoder, schema, easConfig, rpcSigner or publicClient'')\<rparr>) w"
  by (simp add: createAttestations_def directTryBlock_def throw_def)

text \<open>The payloads of a run do not depend on the analytics client.\<close>

lemma safe_payload:
  "submitted (createSafeAttestationsTransaction (e\<lparr>trackEvent := t\<rparr>) w) =
   submitted (createSafeAttestationsTransaction e w)"
  by (simp add: submitted_def createSafeAttestationsTransaction_def safeTryBlock_def
      safeGuardFails_def io_defs split: sum.split option.split)

lemma direct_payload:
  "submitted (createAttestations (e\<lparr>trackEvent := t\<rparr>) w) =
   submitted (createAttestations e w)"
  by (simp add: submitted_def createAttestations_def directTryBlock_def
      directGuardFails_def io_defs split: sum.split)

text \<open>A run that reaches its last state with a returning \<^verbatim>\<open>trackEvent\<close> is caught
  with a throwing one.\<close>

lemma safe_blocked:
  assumes "map_option status (safeTransactionState (st (createSafeAttestationsTransaction e w)))
             = Some Safe_created"
  shows "safeTransactionState
           (st (createSafeAttestationsTransaction (e\<lparr>trackEvent := (\<lambda>p. Inl err)\<rparr>) w)) =
         Some \<lparr>status = Safe_error, txHash = None, signature = None, st_error = Some err\<rparr>"
  using assms
  by (simp add: createSafeAttestationsTransaction_def safeTryBlock_def
      safeGuardFails_def io_defs
      split: sum.split_asm option.split_asm if_split_asm)

lemma direct_blocked:
  assumes "transactionStatus (st (createAttestations e w)) = Some success"
  shows "transactionStatus (st (createAttestations (e\<lparr>trackEvent := (\<lambda>p. Inl err)\<rparr>) w))
           = Some error \<and>
         transactionError (st (createAttestations (e\<lparr>trackEvent := (\<lambda>p. Inl err)\<rparr>) w))
           = Some err"
  using assms
  by (simp add: createAttestations_def directTryBlock_def
      directGuardFails_def io_defs
      split: sum.split_asm option.split_asm if_split_asm)

text \<open>A failed encoder construction on a state without an encoder leaves it without
  one.\<close>

lemma initSchemaEncoder_failure:
  assumes "schemaRecord (st w) = Some r" and "newSchemaEncoder e (rec_schema r) = Inl err"
    and "rec_schema r \<noteq> []"
  shows "schemaEncoder (st (initSchemaEncoder e w)) = schemaEncoder (st w) \<and>
         schemaEncoderError (st (initSchemaEncoder e w)) = Some err"
  using assms by (simp add: initSchemaEncoder_def)

section \<open>The resolved field list\<close>

text \<open>
  Claim C3. For a fetched schema record, the field list that \<^verbatim>\<open>createSchemaFromRecord\<close>
  stores consists of the parsed fields whose type name is recognised, in declared order,
  then the field \<^verbatim>\<open>{ name: "refUID", type: "bytes32" }\<close> exactly when refUID mode is on,
  then the field \<^verbatim>\<open>{ name: "recipient", type: "address" }\<close>; its length is the number of
  recognised fields, plus one in refUID mode, plus one.
\<close>

theorem createSchemaFromRecord_fields:
  assumes "schemaRecord (st w) = Some r"
  shows "schema (st (createSchemaFromRecord e w)) =
           Some (filter (\<lambda>f. isSchemaFieldTypeName e (type f))
                        (map fieldOf (split CHR '','' (rec_schema r)))
                 @ (if includeRefUid e then [\<lparr>name = Some ''refUID'', type = ''bytes32''\<rparr>]
                    else [])
                 @ [\<lparr>name = Some ''recipient'', type = ''address''\<rparr>])
         \<and> length (the (schema (st (createSchemaFromRecord e w)))) =
             length (filter (\<lambda>f. isSchemaFieldTypeName e (type f))
                            (map fieldOf (split CHR '','' (rec_schema r))))
             + (if includeRefUid e then 1 else 0) + 1"
proof -
  have "fst (forEachField e (split CHR '','' (rec_schema r)) [] w) =
          filter (\<lambda>f. isSchemaFieldTypeName e (type f))
                 (map fieldOf (split CHR '','' (rec_schema r)))"
    by (simp add: forEachField_fst)
  with assms show ?thesis
    by (simp add: createSchemaFromRecord_def Let_def split_beta)
qed

theorem createSchemaFromRecord_fields_witness:
  "schemaRecord (st loadedWorld) =
     Some \<lparr>uid = ''0xschema'', resolver = ''0x0'', rec_revocable = True,
           rec_schema = ''uint256 value, string note''\<rparr> \<and>
   schema (st (createSchemaFromRecord refEnv loadedWorld)) =
     Some [\<lparr>name = Some ''value'', type = ''uint256''\<rparr>,
           \<lparr>name = Some ''note'', type = ''string''\<rparr>,
           \<lparr>name = Some ''refUID'', type = ''bytes32''\<rparr>,
           \<lparr>name = Some ''recipient'', type = ''address''\<rparr>] \<and>
   length (the (schema (st (createSchemaFromRecord refEnv loadedWorld)))) = 4"
  using createSchemaFromRecord_fields
    [of loadedWorld "\<lparr>uid = ''0xschema'', resolver = ''0x0'', rec_revocable = True,
                      rec_schema = ''uint256 value, string note''\<rparr>" refEnv]
  by (simp add: sample_defs fieldOf_def trim_def isWhiteSpace_def)

section \<open>The batch of the multisig proposal\<close>

text \<open>
  Claim C1, as amended. For every row included in a batch, the cell resolved to the
  recipient address is the last cell of the row, with or without a reference UID column;
  in refUID mode the second-to-last cell is the reference UID of the entry, and without it
  the reference UID is the zero hash.
\<close>

theorem recipient_is_last_cell:
  assumes "parse e (csv e) = Inr rows" and "schema state = Some sch"
    and "schemaEncoder state = Some enc" and "schemaRecord state = Some r"
    and "buildRequestData e state = Inr ds"
  shows "list_all2
           (\<lambda>row d. processRecipient e (cellAt row (int (length row) - 1)) = Inr (recipient d) \<and>
                     refUID d = (if includeRefUid e then cellAt row (int (length row) - 2)
                                 else Some zeroHash))
           (filter (\<lambda>row. shouldIncludeRow e row sch) rows) ds"
  by (rule list_all2_mono[OF buildRequestData_entries[OF assms]]) simp

theorem recipient_is_last_cell_witness:
  "parse refEnv (csv refEnv) = Inr [[''42'', ''hello'', ''0xref'', ''alice.eth'']] \<and>
   buildRequestData refEnv (st refWorld) =
     Inr [\<lparr>recipient = ''alice.eth'', expirationTime = 0, revocable = True,
           refUID = Some ''0xref'', data = ''42hello0xref'', value = 0\<rparr>] \<and>
   list_all2
     (\<lambda>row d. processRecipient refEnv (cellAt row (int (length row) - 1)) = Inr (recipient d) \<and>
               refUID d = (if includeRefUid refEnv then cellAt row (int (length row) - 2)
                           else Some zeroHash))
     [[''42'', ''hello'', ''0xref'', ''alice.eth'']]
     [\<lparr>recipient = ''alice.eth'', expirationTime = 0, revocable = True,
       refUID = Some ''0xref'', data = ''42hello0xref'', value = 0\<rparr>]"
  using recipient_is_last_cell
    [of refEnv "[[''42'', ''hello'', ''0xref'', ''alice.eth'']]" "st refWorld"
        "[\<lparr>name = Some ''value'', type = ''uint256''\<rparr>,
          \<lparr>name = Some ''note'', type = ''string''\<rparr>,
          \<lparr>name = Some ''refUID'', type = ''bytes32''\<rparr>,
          \<lparr>name = Some ''recipient'', type = ''address''\<rparr>]"
        "SchemaEncoder ''uint256 value, string note''"
        "\<lparr>uid = ''0xschema'', resolver = ''0x0'', rec_revocable = True,
          rec_schema = ''uint256 value, string note''\<rparr>"
        "[\<lparr>recipient = ''alice.eth'', expirationTime = 0, revocable = True,
           refUID = Some ''0xref'', data = ''42hello0xref'', value = 0\<rparr>]"]
  by (simp add: sample_defs run_defs)

text \<open>Claim C1 as stated fails in refUID mode: the row \<^verbatim>\<open>42,hello,0xref,alice.eth\<close> is
  included with the recipient resolved from its last cell \<^verbatim>\<open>alice.eth\<close>, while its
  second-to-last cell \<^verbatim>\<open>0xref\<close> resolves to another address and becomes the reference UID.\<close>

theorem recipient_second_to_last_counterexample:
  "includeRefUid refEnv \<and>
   parse refEnv (csv refEnv) = Inr [[''42'', ''hello'', ''0xref'', ''alice.eth'']] \<and>
   buildRequestData refEnv (st refWorld) =
     Inr [\<lparr>recipient = ''alice.eth'', expirationTime = 0, revocable = True,
           refUID = Some ''0xref'', data = ''42hello0xref'', value = 0\<rparr>] \<and>
   processRecipient refEnv (cellAt [''42'', ''hello'', ''0xref'', ''alice.eth''] (4 - 1))
     = Inr ''alice.eth'' \<and>
   processRecipient refEnv (cellAt [''42'', ''hello'', ''0xref'', ''alice.eth''] (4 - 2))
     = Inr ''0xref''"
  by (simp add: sample_defs run_defs)

text \<open>
  Claim C2, as amended. Let the parsed sheet have N rows of which K pass
  \<^verbatim>\<open>shouldIncludeRow\<close> against the resolved field list and M = N - K do not. Every batch
  the operation assembles has exactly K entries, one per passing row and in row order (each
  entry carries the encoding and the resolved recipient of its row), and none for an
  excluded row. A batch is assembled when \<^verbatim>\<open>encodeRow\<close> and \<^verbatim>\<open>processRecipient\<close> succeed on
  every passing row; when either throws on a passing row, no batch is assembled at all.
\<close>

theorem batch_is_included_rows:
  assumes "parse e (csv e) = Inr rows" and "schema state = Some sch"
    and "schemaEncoder state = Some enc" and "schemaRecord state = Some r"
  shows "(\<forall>ds. buildRequestData e state = Inr ds \<longrightarrow>
           length ds = length (filter (\<lambda>row. shouldIncludeRow e row sch) rows) \<and>
           length ds + length (filter (\<lambda>row. \<not> shouldIncludeRow e row sch) rows) = length rows \<and>
           list_all2
             (\<lambda>row d. encodeRow e row sch enc = Inr (data d) \<and>
                       processRecipient e (cellAt row (int (length row) - 1)) = Inr (recipient d))
             (filter (\<lambda>row. shouldIncludeRow e row sch) rows) ds)
       \<and> ((\<forall>row \<in> set rows. shouldIncludeRow e row sch \<longrightarrow>
             (\<exists>b. encodeRow e row sch enc = Inr b) \<and>
             (\<exists>a. processRecipient e (cellAt row (int (length row) - 1)) = Inr a))
           \<longrightarrow> (\<exists>ds. buildRequestData e state = Inr ds))
       \<and> ((\<exists>row \<in> set rows. shouldIncludeRow e row sch \<and>
             ((\<exists>err. encodeRow e row sch enc = Inl err) \<or>
              (\<exists>err. processRecipient e (cellAt row (int (length row) - 1)) = Inl err)))
           \<longrightarrow> (\<exists>err. buildRequestData e state = Inl err))"
proof (intro conjI allI impI)
  fix ds assume built: "buildRequestData e state = Inr ds"
  note entries = buildRequestData_entries[OF assms built]
  show "length ds = length (filter (\<lambda>row. shouldIncludeRow e row sch) rows)"
    using list_all2_lengthD[OF entries] by simp
  then show "length ds + length (filter (\<lambda>row. \<not> shouldIncludeRow e row sch) rows) = length rows"
    using sum_length_filter_compl[of "\<lambda>row. shouldIncludeRow e row sch" rows] by simp
  show "list_all2
           (\<lambda>row d. encodeRow e row sch enc = Inr (data d) \<and>
                     processRecipient e (cellAt row (int (length row) - 1)) = Inr (recipient d))
           (filter (\<lambda>row. shouldIncludeRow e row sch) rows) ds"
    by (rule list_all2_mono[OF entries]) simp
next
  assume "\<forall>row \<in> set rows. shouldIncludeRow e row sch \<longrightarrow>
             (\<exists>b. encodeRow e row sch enc = Inr b) \<and>
             (\<exists>a. processRecipient e (cellAt row (int (length row) - 1)) = Inr a)"
  from requestDataLoop_succeeds[OF this, of "rec_revocable r" "[]"] assms
  show "\<exists>ds. buildRequestData e state = Inr ds"
    by (simp add: buildRequestData_def)
next
  assume "\<exists>row \<in> set rows. shouldIncludeRow e row sch \<and>
             ((\<exists>err. encodeRow e row sch enc = Inl err) \<or>
              (\<exists>err. processRecipient e (cellAt row (int (length row) - 1)) = Inl err))"
  then obtain row where "row \<in> set rows" "shouldIncludeRow e row sch"
    "(\<exists>err. encodeRow e row sch enc = Inl err) \<or>
     (\<exists>err. processRecipient e (cellAt row (int (length row) - 1)) = Inl err)"
    by blast
  from requestDataLoop_fails[OF this, of "rec_revocable r" "[]"] assms
  show "\<exists>err. buildRequestData e state = Inl err"
    by (simp add: buildRequestData_def)
qed

theorem batch_is_included_rows_witness:
  "parse sampleEnv (csv sampleEnv) = Inr [[''42'', ''hello'', ''alice.eth''], [''7'', ''short'']] \<and>
   buildRequestData sampleEnv (st readyWorld) =
     Inr [\<lparr>recipient = ''alice.eth'', expirationTime = 0, revocable = True,
           refUID = Some zeroHash, data = ''42hello'', value = 0\<rparr>] \<and>
   length (filter (\<lambda>row. shouldIncludeRow sampleEnv row
                 [\<lparr>name = Some ''value'', type = ''uint256''\<rparr>,
                  \<lparr>name = Some ''note'', type = ''string''\<rparr>,
                  \<lparr>name = Some ''recipient'', type = ''address''\<rparr>])
               [[''42'', ''hello'', ''alice.eth''], [''7'', ''short'']]) = 1 \<and>
   length (filter (\<lambda>row. \<not> shouldIncludeRow sampleEnv row
                 [\<lparr>name = Some ''value'', type = ''uint256''\<rparr>,
                  \<lparr>name = Some ''note'', type = ''string''\<rparr>,
                  \<lparr>name = Some ''recipient'', type = ''address''\<rparr>])
               [[''42'', ''hello'', ''alice.eth''], [''7'', ''short'']]) = 1 \<and>
   parse unresolvedEnv (csv unresolvedEnv) =
     Inr [[''1'', ''a'', ''alice.eth''], [''2'', ''b'', ''nobody'']] \<and>
   shouldIncludeRow unresolvedEnv [''2'', ''b'', ''nobody'']
     [\<lparr>name = Some ''value'', type = ''uint256''\<rparr>,
      \<lparr>name = Some ''note'', type = ''string''\<rparr>,
      \<lparr>name = Some ''recipient'', type = ''address''\<rparr>] \<and>
   processRecipient unresolvedEnv (cellAt [''2'', ''b'', ''nobody''] 2) =
     Inl (Error ''unresolved'') \<and>
   (\<exists>err. buildRequestData unresolvedEnv (st readyWorld) = Inl err)"
proof -
  let ?sch = "[\<lparr>name = Some ''value'', type = ''uint256''\<rparr>,
               \<lparr>name = Some ''note'', type = ''string''\<rparr>,
               \<lparr>name = Some ''recipient'', type = ''address''\<rparr>]"
  let ?enc = "SchemaEncoder ''uint256 value, string note''"
  let ?rec = "\<lparr>uid = ''0xschema'', resolver = ''0x0'', rec_revocable = True,
                rec_schema = ''uint256 value, string note''\<rparr>"
  let ?rows = "[[''42'', ''hello'', ''alice.eth''], [''7'', ''short'']]"
  let ?rows2 = "[[''1'', ''a'', ''alice.eth''], [''2'', ''b'', ''nobody'']]"
  let ?d = "\<lparr>recipient = ''alice.eth'', expirationTime = 0, revocable = True,
              refUID = Some zeroHash, data = ''42hello'', value = 0\<rparr>"
  have sch: "schema (st readyWorld) = Some ?sch"
    and enc: "schemaEncoder (st readyWorld) = Some ?enc"
    and rec: "schemaRecord (st readyWorld) = Some ?rec"
    by (simp_all add: sample_defs run_defs)
  have rows: "parse sampleEnv (csv sampleEnv) = Inr ?rows"
    by (simp add: sample_defs)
  have rows2: "parse unresolvedEnv (csv unresolvedEnv) = Inr ?rows2"
    by (simp add: sample_defs)
  have built: "buildRequestData sampleEnv (st readyWorld) = Inr [?d]"
    by (simp add: sample_defs run_defs)
  have included: "shouldIncludeRow unresolvedEnv [''2'', ''b'', ''nobody''] ?sch"
    by (simp add: sample_defs)
  have thrown: "processRecipient unresolvedEnv (cellAt [''2'', ''b'', ''nobody''] 2) =
                  Inl (Error ''unresolved'')"
    by (simp add: sample_defs cellAt_def)
  from batch_is_included_rows[OF rows sch enc rec] built
  have "length [?d] = length (filter (\<lambda>row. shouldIncludeRow sampleEnv row ?sch) ?rows) \<and>
        length [?d] + length (filter (\<lambda>row. \<not> shouldIncludeRow sampleEnv row ?sch) ?rows) =
          length ?rows"
    by blast
  then have counts:
    "length (filter (\<lambda>row. shouldIncludeRow sampleEnv row ?sch) ?rows) = 1 \<and>
     length (filter (\<lambda>row. \<not> shouldIncludeRow sampleEnv row ?sch) ?rows) = 1"
    by simp
  have "\<exists>row \<in> set ?rows2. shouldIncludeRow unresolvedEnv row ?sch \<and>
          ((\<exists>err. encodeRow unresolvedEnv row ?sch ?enc = Inl err) \<or>
           (\<exists>err. processRecipient unresolvedEnv (cellAt row (int (length row) - 1)) = Inl err))"
    using included thrown by simp
  with batch_is_included_rows[OF rows2 sch enc rec]
  have "\<exists>err. buildRequestData unresolvedEnv (st readyWorld) = Inl err"
    by blast
  with rows rows2 built counts included thrown show ?thesis
    by blast
qed

text \<open>Claim C2 as stated fails: both rows of \<^verbatim>\<open>1,a,alice.eth\<close> / \<^verbatim>\<open>2,b,nobody\<close> pass the
  check (K = 2), the recipient of the second does not resolve, and the operation assembles
  no batch: it ends in \<^verbatim>\<open>error\<close> with the thrown value and makes no SDK call.\<close>

theorem batch_aborts_counterexample:
  "parse unresolvedEnv (csv unresolvedEnv) =
     Inr [[''1'', ''a'', ''alice.eth''], [''2'', ''b'', ''nobody'']] \<and>
   schema (st readyWorld) =
     Some [\<lparr>name = Some ''value'', type = ''uint256''\<rparr>,
           \<lparr>name = Some ''note'', type = ''string''\<rparr>,
           \<lparr>name = Some ''recipient'', type = ''address''\<rparr>] \<and>
   length (filter (\<lambda>row. shouldIncludeRow unresolvedEnv row
                 [\<lparr>name = Some ''value'', type = ''uint256''\<rparr>,
                  \<lparr>name = Some ''note'', type = ''string''\<rparr>,
                  \<lparr>name = Some ''recipient'', type = ''address''\<rparr>])
               [[''1'', ''a'', ''alice.eth''], [''2'', ''b'', ''nobody'']]) = 2 \<and>
   buildRequestData unresolvedEnv (st readyWorld) = Inl (Error ''unresolved'') \<and>
   safeTransactionState (st (createSafeAttestationsTransaction unresolvedEnv readyWorld)) =
     Some \<lparr>status = Safe_error, txHash = None, signature = None,
           st_error = Some (Error ''unresolved'')\<rparr> \<and>
   calls (createSafeAttestationsTransaction unresolvedEnv readyWorld) = []"
  by (simp add: sample_defs run_defs io_defs)

text \<open>
  Claim C7. Every entry built for an included row has \<^verbatim>\<open>expirationTime\<close> 0, \<^verbatim>\<open>value\<close> 0,
  \<^verbatim>\<open>revocable\<close> equal to the flag of the fetched schema record, and, when refUID mode is
  off, \<^verbatim>\<open>refUID\<close> equal to the zero hash of 32 bytes.
\<close>

theorem entry_constants:
  assumes "parse e (csv e) = Inr rows" and "schema state = Some sch"
    and "schemaEncoder state = Some enc" and "schemaRecord state = Some r"
    and "buildRequestData e state = Inr ds"
  shows "\<forall>d \<in> set ds. expirationTime d = 0 \<and> value d = 0 \<and> revocable d = rec_revocable r \<and>
           (\<not> includeRefUid e \<longrightarrow>
              refUID d = Some ''0x0000000000000000000000000000000000000000000000000000000000000000'')"
proof
  fix d assume "d \<in> set ds"
  with buildRequestData_entries[OF assms] obtain row where
    "expirationTime d = 0 \<and> revocable d = rec_revocable r \<and>
     refUID d = (if includeRefUid e then cellAt row (int (length row) - 2) else Some zeroHash) \<and>
     value d = 0"
    by (auto simp: list_all2_conv_all_nth in_set_conv_nth)
  then show "expirationTime d = 0 \<and> value d = 0 \<and> revocable d = rec_revocable r \<and>
           (\<not> includeRefUid e \<longrightarrow>
              refUID d = Some ''0x0000000000000000000000000000000000000000000000000000000000000000'')"
    by (simp add: zeroHash_def)
qed

theorem entry_constants_witness:
  "parse sampleEnv (csv sampleEnv) = Inr [[''42'', ''hello'', ''alice.eth''], [''7'', ''short'']] \<and>
   buildRequestData sampleEnv (st readyWorld) =
     Inr [\<lparr>recipient = ''alice.eth'', expirationTime = 0, revocable = True,
           refUID = Some ''0x0000000000000000000000000000000000000000000000000000000000000000'',
           data = ''42hello'', value = 0\<rparr>] \<and>
   \<not> includeRefUid sampleEnv"
  using entry_constants
    [of sampleEnv "[[''42'', ''hello'', ''alice.eth''], [''7'', ''short'']]" "st readyWorld"
        "[\<lparr>name = Some ''value'', type = ''uint256''\<rparr>,
          \<lparr>name = Some ''note'', type = ''string''\<rparr>,
          \<lparr>name = Some ''recipient'', type = ''address''\<rparr>]"
        "SchemaEncoder ''uint256 value, string note''"
        "\<lparr>uid = ''0xschema'', resolver = ''0x0'', rec_revocable = True,
          rec_schema = ''uint256 value, string note''\<rparr>"
        "[\<lparr>recipient = ''alice.eth'', expirationTime = 0, revocable = True,
           refUID = Some ''0x0000000000000000000000000000000000000000000000000000000000000000'',
           data = ''42hello'', value = 0\<rparr>]"]
  by (simp add: sample_defs run_defs)

section \<open>Failed guards\<close>

text \<open>
  Claim C4, as amended. When the multisig-proposal submission is invoked and a disjunct of
  its guard holds (no signer, no Safe address or client, no encoder, no resolved field
  list, no EAS configuration, no public client, no chain id, or a record that is absent or
  not revocable), the operation throws the error "Missing signer, safe, safeApiKit or
  ethersAdapter" before the transition to \<^verbatim>\<open>creating\<close> and before any SDK call, and its
  own \<^verbatim>\<open>catch\<close> records it: the multisig transaction state becomes
  \<^verbatim>\<open>{ status: "error", error }\<close>, by one \<^verbatim>\<open>setState\<close>, and no other field changes.
\<close>

theorem safe_guard_failure_records_error:
  assumes "safeGuardFails e (st w)"
  shows "st (createSafeAttestationsTransaction e w) =
           (st w)\<lparr>safeTransactionState :=
              Some \<lparr>status = Safe_error, txHash = None, signature = None,
                    st_error = Some (Error ''Missing signer, safe, safeApiKit or ethersAdapter'')\<rparr>\<rparr>
         \<and> writes (createSafeAttestationsTransaction e w) =
             writes w @ [st (createSafeAttestationsTransaction e w)]
         \<and> calls (createSafeAttestationsTransaction e w) = calls w"
  by (simp add: safe_guard_catch[OF assms])

theorem safe_guard_failure_records_error_witness:
  "safeGuardFails signerlessEnv (st readyWorld) \<and>
   safeTransactionState (st (createSafeAttestationsTransaction signerlessEnv readyWorld)) =
     Some \<lparr>status = Safe_error, txHash = None, signature = None,
           st_error = Some (Error ''Missing signer, safe, safeApiKit or ethersAdapter'')\<rparr> \<and>
   calls (createSafeAttestationsTransaction signerlessEnv readyWorld) = []"
  using safe_guard_failure_records_error[of signerlessEnv readyWorld]
  by (simp add: sample_defs run_defs)

text \<open>Claim C4 as stated fails: with no signer connected the transaction state is unset
  before the call and holds the error state after it.\<close>

theorem safe_guard_failure_counterexample:
  "rpcSigner signerlessEnv = None \<and>
   safeTransactionState (st readyWorld) = None \<and>
   safeTransactionState (st (createSafeAttestationsTransaction signerlessEnv readyWorld)) =
     Some \<lparr>status = Safe_error, txHash = None, signature = None,
           st_error = Some (Error ''Missing signer, safe, safeApiKit or ethersAdapter'')\<rparr>"
  by (simp add: sample_defs run_defs io_defs)

text \<open>
  Claim C10. In either mode, when the fetched schema record has \<^verbatim>\<open>revocable = false\<close>, the
  operation fails with the error of its guard before the CSV is parsed or any request is
  built: the only effect is the error recorded by its \<^verbatim>\<open>catch\<close>, whatever the parser and
  the other collaborators would do, and no SDK call is made. So a submission reaches the
  Safe service or the EAS contract only for a record with \<^verbatim>\<open>revocable = true\<close>.
\<close>

theorem irrevocable_record_is_refused:
  assumes "schemaRecord (st w) = Some r" and "\<not> rec_revocable r"
  shows "createSafeAttestationsTransaction e w =
           setState (\<lambda>prev. prev\<lparr>safeTransactionState :=
              Some \<lparr>status = Safe_error, txHash = None, signature = None,
                    st_error = Some (Error ''Missing signer, safe, safeApiKit or ethersAdapter'')\<rparr>\<rparr>) w
         \<and> createAttestations e w =
             setState (\<lambda>prev. prev\<lparr>transactionStatus := Some error, transactionError :=
                Some (Error ''Missing schemaEncoder, schema, easConfig, rpcSigner or publicClient'')\<rparr>) w
         \<and> calls (createSafeAttestationsTransaction e w) = calls w
         \<and> calls (createAttestations e w) = calls w"
proof -
  from assms have "safeGuardFails e (st w)" and "directGuardFails e (st w)"
    by (simp_all add: safeGuardFails_def directGuardFails_def)
  then show ?thesis
    by (simp add: safe_guard_catch direct_guard_catch)
qed

theorem irrevocable_record_is_refused_witness:
  "schemaRecord (st irrevocableWorld) =
     Some \<lparr>uid = ''0xschema'', resolver = ''0x0'', rec_revocable = False,
           rec_schema = ''uint256 value, string note''\<rparr> \<and>
   safeTransactionState (st (createSafeAttestationsTransaction sampleEnv irrevocableWorld)) =
     Some \<lparr>status = Safe_error, txHash = None, signature = None,
           st_error = Some (Error ''Missing signer, safe, safeApiKit or ethersAdapter'')\<rparr> \<and>
   transactionStatus (st (createAttestations sampleEnv irrevocableWorld)) = Some error \<and>
   transactionError (st (createAttestations sampleEnv irrevocableWorld)) =
     Some (Error ''Missing schemaEncoder, schema, easConfig, rpcSigner or publicClient'') \<and>
   calls (createSafeAttestationsTransaction sampleEnv irrevocableWorld) = [] \<and>
   calls (createAttestations sampleEnv irrevocableWorld) = []"
  using irrevocable_record_is_refused
    [of irrevocableWorld
        "\<lparr>uid = ''0xschema'', resolver = ''0x0'', rec_revocable = False,
          rec_schema = ''uint256 value, string note''\<rparr>" sampleEnv]
  by (simp add: sample_defs run_defs)

text \<open>
  Claim C6, as amended. Both submission operations halt before building any request, with
  the error of their guard recorded and no SDK call made, whenever the schema encoder or
  the resolved field list is unset. (The guards read \<^verbatim>\<open>schemaEncoder\<close> and \<^verbatim>\<open>schema\<close>,
  never \<^verbatim>\<open>schemaError\<close> or \<^verbatim>\<open>schemaEncoderError\<close>.)
\<close>

theorem missing_encoder_or_fields_halts:
  assumes "schemaEncoder (st w) = None \<or> schema (st w) = None"
  shows "createSafeAttestationsTransaction e w =
           setState (\<lambda>prev. prev\<lparr>safeTransactionState :=
              Some \<lparr>status = Safe_error, txHash = None, signature = None,
                    st_error = Some (Error ''Missing signer, safe, safeApiKit or ethersAdapter'')\<rparr>\<rparr>) w
         \<and> createAttestations e w =
             setState (\<lambda>prev. prev\<lparr>transactionStatus := Some error, transactionError :=
                Some (Error ''Missing schemaEncoder, schema, easConfig, rpcSigner or publicClient'')\<rparr>) w
         \<and> submitted (createSafeAttestationsTransaction e w) = submitted w
         \<and> submitted (createAttestations e w) = submitted w"
proof -
  from assms have "safeGuardFails e (st w)" and "directGuardFails e (st w)"
    by (auto simp: safeGuardFails_def directGuardFails_def)
  then show ?thesis
    by (simp add: safe_guard_catch direct_guard_catch submitted_def)
qed

theorem missing_encoder_or_fields_halts_witness:
  "schemaEncoder (st loadedWorld) = None \<and>
   safeTransactionState (st (createSafeAttestationsTransaction sampleEnv loadedWorld)) =
     Some \<lparr>status = Safe_error, txHash = None, signature = None,
           st_error = Some (Error ''Missing signer, safe, safeApiKit or ethersAdapter'')\<rparr> \<and>
   transactionStatus (st (createAttestations sampleEnv loadedWorld)) = Some error \<and>
   submitted (createSafeAttestationsTransaction sampleEnv loadedWorld) = [] \<and>
   submitted (createAttestations sampleEnv loadedWorld) = []"
  using missing_encoder_or_fields_halts[of loadedWorld sampleEnv]
  by (simp add: sample_defs submitted_def)

text \<open>Claim C6 as stated fails: for the schema \<^verbatim>\<open>uint256 value,string[] tags\<close> the resolver
  records \<^verbatim>\<open>schemaError\<close> for \<^verbatim>\<open>string[]\<close> and still stores a field list, the encoder is
  built, and both operations go through: the proposal counts one attestation and ends in
  \<^verbatim>\<open>created\<close>, the direct submission ends in \<^verbatim>\<open>success\<close>.\<close>

theorem schema_error_counterexample:
  "schemaError (st oddReadyWorld) = Some (Error ''Invalid type name: string[]'') \<and>
   schema (st oddReadyWorld) =
     Some [\<lparr>name = Some ''value'', type = ''uint256''\<rparr>,
           \<lparr>name = Some ''recipient'', type = ''address''\<rparr>] \<and>
   buildRequestData oddEnv (st oddReadyWorld) =
     Inr [\<lparr>recipient = ''alice.eth'', expirationTime = 0, revocable = True,
           refUID = Some zeroHash, data = ''42'', value = 0\<rparr>] \<and>
   map_option status
     (safeTransactionState (st (createSafeAttestationsTransaction oddEnv oddReadyWorld)))
     = Some Safe_created \<and>
   submitted (createSafeAttestationsTransaction oddEnv oddReadyWorld) =
     [ProposeTransaction
        \<lparr>safeAddress_of = ''0xsafe'',
          safeTransactionData =
            [\<lparr>to = ''0xeas'', tx_value = ''0'', tx_data = ''0xcalldata'', operation = Call\<rparr>],
          safeTxHash = ''0xhash'', senderAddress = ''0xsigner'',
          senderSignature = ''0xsig''\<rparr>] \<and>
   transactionStatus (st (createAttestations oddEnv oddReadyWorld)) = Some success \<and>
   submitted (createAttestations oddEnv oddReadyWorld) =
     [MultiAttest [\<lparr>req_schema = ''0xschema'', req_data = []\<rparr>]]"
  by (simp add: sample_defs run_defs io_defs submitted_def)

section \<open>Analytics\<close>

text \<open>
  Claim C5, as amended. In either mode the payload handed to the Safe transaction service
  or to the EAS contract is the same whatever the analytics client does, since it is sent
  before the event. The terminal state is not: a run that ends in \<^verbatim>\<open>created\<close> (multisig
  proposal) or \<^verbatim>\<open>success\<close> (direct submission) ends in \<^verbatim>\<open>error\<close>, carrying the thrown
  value, once \<^verbatim>\<open>trackEvent\<close> throws, because the call stands inside the \<^verbatim>\<open>try\<close> block.
\<close>

theorem analytics_failure_keeps_payload_only:
  shows "submitted (createSafeAttestationsTransaction (e\<lparr>trackEvent := t\<rparr>) w) =
           submitted (createSafeAttestationsTransaction e w)
         \<and> submitted (createAttestations (e\<lparr>trackEvent := t\<rparr>) w) =
             submitted (createAttestations e w)
         \<and> (map_option status
               (safeTransactionState (st (createSafeAttestationsTransaction e w)))
               = Some Safe_created \<longrightarrow>
             safeTransactionState
               (st (createSafeAttestationsTransaction (e\<lparr>trackEvent := (\<lambda>p. Inl err)\<rparr>) w)) =
             Some \<lparr>status = Safe_error, txHash = None, signature = None,
                   st_error = Some err\<rparr>)
         \<and> (transactionStatus (st (createAttestations e w)) = Some success \<longrightarrow>
             transactionStatus
               (st (createAttestations (e\<lparr>trackEvent := (\<lambda>p. Inl err)\<rparr>) w)) = Some error \<and>
             transactionError
               (st (createAttestations (e\<lparr>trackEvent := (\<lambda>p. Inl err)\<rparr>) w)) = Some err)"
  using safe_payload[where e = e and t = t and w = w]
    direct_payload[where e = e and t = t and w = w]
    safe_blocked[where e = e and w = w and err = err]
    direct_blocked[where e = e and w = w and err = err]
  by blast

theorem analytics_failure_keeps_payload_only_witness:
  "map_option status
     (safeTransactionState (st (createSafeAttestationsTransaction sampleEnv readyWorld)))
     = Some Safe_created \<and>
   transactionStatus (st (createAttestations sampleEnv readyWorld)) = Some success \<and>
   submitted (createSafeAttestationsTransaction
                (sampleEnv\<lparr>trackEvent := (\<lambda>p. Inl (Error ''blocked''))\<rparr>) readyWorld) =
     submitted (createSafeAttestationsTransaction sampleEnv readyWorld) \<and>
   submitted (createAttestations
                (sampleEnv\<lparr>trackEvent := (\<lambda>p. Inl (Error ''blocked''))\<rparr>) readyWorld) =
     submitted (createAttestations sampleEnv readyWorld) \<and>
   safeTransactionState
     (st (createSafeAttestationsTransaction
            (sampleEnv\<lparr>trackEvent := (\<lambda>p. Inl (Error ''blocked''))\<rparr>) readyWorld)) =
     Some \<lparr>status = Safe_error, txHash = None, signature = None,
           st_error = Some (Error ''blocked'')\<rparr> \<and>
   transactionStatus
     (st (createAttestations
            (sampleEnv\<lparr>trackEvent := (\<lambda>p. Inl (Error ''blocked''))\<rparr>) readyWorld)) = Some error"
proof -
  have created: "map_option status
     (safeTransactionState (st (createSafeAttestationsTransaction sampleEnv readyWorld)))
     = Some Safe_created"
    by (simp add: sample_defs run_defs io_defs)
  have succeeded: "transactionStatus (st (createAttestations sampleEnv readyWorld)) = Some success"
    by (simp add: sample_defs run_defs io_defs)
  from analytics_failure_keeps_payload_only
    [where e = sampleEnv and t = "\<lambda>p. Inl (Error ''blocked'')" and w = readyWorld
       and err = "Error ''blocked''"]
    created succeeded
  show ?thesis by simp
qed

text \<open>Claim C5 as stated fails: with every other collaborator unchanged, an analytics
  client that throws turns \<^verbatim>\<open>created\<close> into \<^verbatim>\<open>error\<close> after the proposal was sent, and
  \<^verbatim>\<open>success\<close> into \<^verbatim>\<open>error\<close> after \<^verbatim>\<open>multiAttest\<close> was called; the direct run then never
  waits for the attestation identifiers.\<close>

theorem analytics_failure_counterexample:
  "map_option status
     (safeTransactionState (st (createSafeAttestationsTransaction sampleEnv readyWorld)))
     = Some Safe_created \<and>
   safeTransactionState (st (createSafeAttestationsTransaction blockedEnv readyWorld)) =
     Some \<lparr>status = Safe_error, txHash = None, signature = None,
           st_error = Some (Error ''blocked'')\<rparr> \<and>
   submitted (createSafeAttestationsTransaction blockedEnv readyWorld) =
     [ProposeTransaction
        \<lparr>safeAddress_of = ''0xsafe'',
          safeTransactionData =
            [\<lparr>to = ''0xeas'', tx_value = ''0'', tx_data = ''0xcalldata'', operation = Call\<rparr>],
          safeTxHash = ''0xhash'', senderAddress = ''0xsigner'',
          senderSignature = ''0xsig''\<rparr>] \<and>
   transactionStatus (st (createAttestations sampleEnv readyWorld)) = Some success \<and>
   attestationUids (st (createAttestations sampleEnv readyWorld)) = Some [''0xuid''] \<and>
   transactionStatus (st (createAttestations blockedEnv readyWorld)) = Some error \<and>
   transactionError (st (createAttestations blockedEnv readyWorld)) = Some (Error ''blocked'') \<and>
   attestationUids (st (createAttestations blockedEnv readyWorld)) = None \<and>
   calls (createAttestations blockedEnv readyWorld) =
     [MultiAttest [\<lparr>req_schema = ''0xschema'', req_data = []\<rparr>],
      TrackEvent \<lparr>chain = 11155111, wallet = ''safe'', ev_schema = ''0xschema'',
                  attestationCount = 0\<rparr>]"
  by (simp add: sample_defs run_defs io_defs submitted_def)

section \<open>Status of a direct submission\<close>

text \<open>
  Claim C9. During one run of the direct submission the transaction status is written
  along \<^verbatim>\<open>creating\<close>, \<^verbatim>\<open>attesting\<close>, \<^verbatim>\<open>wait_uid\<close>, \<^verbatim>\<open>success\<close>, in this order and without a
  gap, except that a failure at any stage writes \<^verbatim>\<open>error\<close> and ends the run; there is no
  other write. Stage by stage: a failed guard writes \<^verbatim>\<open>error\<close> alone; a throw of
  \<^verbatim>\<open>createMultiAttestRequest\<close> writes \<^verbatim>\<open>error\<close> after \<^verbatim>\<open>creating\<close>; a throw of
  \<^verbatim>\<open>multiAttest\<close> (or of \<^verbatim>\<open>trackEvent\<close>) after \<^verbatim>\<open>attesting\<close>; a throw of \<^verbatim>\<open>wait\<close> after
  \<^verbatim>\<open>wait_uid\<close>; in each case the thrown value is the recorded error. Only a run in which
  every stage succeeds reaches \<^verbatim>\<open>success\<close>.
\<close>

theorem direct_status_sequence:
  "statusTrace e w \<in>
     set [[Some error],
          [Some creating, Some error],
          [Some creating, Some attesting, Some error],
          [Some creating, Some attesting, Some wait_uid, Some error],
          [Some creating, Some attesting, Some wait_uid, Some success]]
   \<and> (statusTrace e w, transactionError (st (createAttestations e w))) =
       (if directGuardFails e (st w)
        then ([Some error],
              Some (Error ''Missing schemaEncoder, schema, easConfig, rpcSigner or publicClient''))
        else
          (case createMultiAttestRequest e (csv e) (schemaUid (st w)) (the (schema (st w)))
                  (the (schemaEncoder (st w))) (rec_revocable (the (schemaRecord (st w)))) of
             Inl err \<Rightarrow> ([Some creating, Some error], Some err)
           | Inr request \<Rightarrow>
               (case multiAttest e [request] of
                  Inl err \<Rightarrow> ([Some creating, Some attesting, Some error], Some err)
                | Inr tx \<Rightarrow>
                    (case trackEvent e
                            \<lparr>chain = the (chainId e), wallet = ''safe'',
                              ev_schema = schemaUidProp e,
                              attestationCount = length (req_data request)\<rparr> of
                       Inl err \<Rightarrow> ([Some creating, Some attesting, Some error], Some err)
                     | Inr u \<Rightarrow>
                         (case wait e tx of
                            Inl err \<Rightarrow>
                              ([Some creating, Some attesting, Some wait_uid, Some error],
                               Some err)
                          | Inr uids \<Rightarrow>
                              ([Some creating, Some attesting, Some wait_uid, Some success],
                               transactionError (st w)))))))"
  by (simp add: statusTrace_def createAttestations_def directTryBlock_def io_defs
      split: sum.split)

theorem direct_status_sequence_witness:
  "statusTrace sampleEnv readyWorld =
     [Some creating, Some attesting, Some wait_uid, Some success] \<and>
   multiAttest revertingEnv [\<lparr>req_schema = ''0xschema'', req_data = []\<rparr>] =
     Inl (Error ''reverted'') \<and>
   statusTrace revertingEnv readyWorld = [Some creating, Some attesting, Some error] \<and>
   transactionError (st (createAttestations revertingEnv readyWorld)) =
     Some (Error ''reverted'') \<and>
   statusTrace blockedEnv readyWorld = [Some creating, Some attesting, Some error] \<and>
   statusTrace sampleEnv irrevocableWorld = [Some error]"
  using direct_status_sequence[of sampleEnv readyWorld]
    direct_status_sequence[of revertingEnv readyWorld]
  by (simp add: statusTrace_def sample_defs run_defs io_defs)

section \<open>Reset\<close>

text \<open>
  Claim C8. In any state, \<^verbatim>\<open>resetTransactions\<close> sets the multisig transaction state, the
  transaction handle, the transaction error, the transaction status and the attestation
  UIDs to \<^verbatim>\<open>undefined\<close> and leaves every other field (schema UID, schema record with its
  loading flag and error, schema error, field list, encoder, encoder error) as it was; it
  makes no SDK call.
\<close>

theorem resetTransactions_frame:
  "safeTransactionState (st (resetTransactions w)) = None \<and>
   transaction (st (resetTransactions w)) = None \<and>
   transactionError (st (resetTransactions w)) = None \<and>
   transactionStatus (st (resetTransactions w)) = None \<and>
   attestationUids (st (resetTransactions w)) = None \<and>
   schemaUid (st (resetTransactions w)) = schemaUid (st w) \<and>
   schemaRecord (st (resetTransactions w)) = schemaRecord (st w) \<and>
   schemaRecordIsLoading (st (resetTransactions w)) = schemaRecordIsLoading (st w) \<and>
   schemaRecordError (st (resetTransactions w)) = schemaRecordError (st w) \<and>
   schemaError (st (resetTransactions w)) = schemaError (st w) \<and>
   schema (st (resetTransactions w)) = schema (st w) \<and>
   schemaEncoder (st (resetTransactions w)) = schemaEncoder (st w) \<and>
   schemaEncoderError (st (resetTransactions w)) = schemaEncoderError (st w) \<and>
   calls (resetTransactions w) = calls w"
  by (simp add: resetTransactions_def)

theorem resetTransactions_frame_witness:
  "transactionStatus (st (createAttestations sampleEnv readyWorld)) = Some success \<and>
   transactionStatus (st (resetTransactions (createAttestations sampleEnv readyWorld))) = None \<and>
   attestationUids (st (resetTransactions (createAttestations sampleEnv readyWorld))) = None \<and>
   transaction (st (resetTransactions (createAttestations sampleEnv readyWorld))) = None \<and>
   schemaEncoder (st (resetTransactions (createAttestations sampleEnv readyWorld))) =
     Some (SchemaEncoder ''uint256 value, string note'')"
  using resetTransactions_frame[of "createAttestations sampleEnv readyWorld"]
  by (simp add: sample_defs run_defs io_defs)

end
